theory Spec2Isabelle
  imports Main "HOL-Library.AList"
begin

section \<open>Run-time values\<close>

text \<open>
  The TypeScript interfaces of the client (\<open>Task\<close>, \<open>TaskResponse\<close>,
  \<open>RetrieveAllResponse\<close>, \<open>CreateTaskParams\<close>) are erased at run time: what the
  methods read and return is whatever value the transport decoded from the response body.
  A run-time value is therefore a JavaScript value as JSON can produce it, plus
  \<open>undefined\<close>. Numbers are kept as integers: the client only ever tests a number for
  being zero (truthiness). An object is the list of its own properties.
\<close>

datatype jsval =
    JUndefined
  | JNull
  | JBool bool
  | JNum int
  | JStr string
  | JArr "jsval list"
  | JObj "(string \<times> jsval) list"

text \<open>
  Whatever a \<open>catch (error)\<close> clause can receive here: a rejection of the transport
  (with the HTTP status when a response arrived, without one for a network failure), or
  the \<open>TypeError\<close> of reading a property of \<open>null\<close> or \<open>undefined\<close>
  (the value read from, and the property name).
\<close>

datatype error =
    AxiosError "nat option" string
  | TypeError jsval string

text \<open>JavaScript truthiness, as \<open>if (v)\<close> and \<open>v && w\<close> test it.\<close>

fun truthy :: "jsval \<Rightarrow> bool" where
  "truthy JUndefined = False"
| "truthy JNull = False"
| "truthy (JBool b) = b"
| "truthy (JNum n) = (n \<noteq> 0)"
| "truthy (JStr s) = (s \<noteq> [])"
| "truthy (JArr vs) = True"
| "truthy (JObj kvs) = True"

text \<open>
  The property read \<open>v.k\<close> for the names the client reads (\<open>message\<close>,
  \<open>tasks\<close>, \<open>task\<close>): it throws on \<open>null\<close> and \<open>undefined\<close>, looks
  the name up in an object, and is \<open>undefined\<close> on a primitive or an array, whose
  prototypes have none of these names.
\<close>

fun get_prop :: "jsval \<Rightarrow> string \<Rightarrow> error + jsval" where
  "get_prop JUndefined k = Inl (TypeError JUndefined k)"
| "get_prop JNull k = Inl (TypeError JNull k)"
| "get_prop (JObj kvs) k = Inr (case map_of kvs k of None \<Rightarrow> JUndefined | Some v \<Rightarrow> v)"
| "get_prop v k = Inr JUndefined"

text \<open>Strict equality \<open>v === 'literal'\<close> against a string literal.\<close>

fun strict_eq_str :: "jsval \<Rightarrow> string \<Rightarrow> bool" where
  "strict_eq_str (JStr s) t = (s = t)"
| "strict_eq_str v t = False"

text \<open>An optional string argument \<open>x?: string\<close> as the value the body sees.\<close>

fun arg :: "string option \<Rightarrow> jsval" where
  "arg None = JUndefined"
| "arg (Some s) = JStr s"

section \<open>Requests, responses and the world outside\<close>

datatype http_method = GET | POST | PUT | DELETE

text \<open>The configuration object handed to the transport: headers, and \<open>params\<close> when given.\<close>

record config =
  headers :: "(string \<times> string) list"
  params :: "(string \<times> string) list option"

record request =
  verb :: http_method
  url :: string
  body :: "jsval option"
  config :: config

record response =
  status :: nat
  data :: jsval

text \<open>
  The transport library and the remote service are outside the repository: they are a
  parameter. The transport answers a request, knowing every request sent before it,
  with a rejection or with a response. With the library's default settings a response
  whose status is outside 200..299 is a rejection carrying that status, and so is a
  failure of the network, which carries none.
\<close>

type_synonym transport = "request list \<Rightarrow> request \<Rightarrow> error + response"

record LunataskAPI =
  baseUrl :: string
  accessToken :: string

text \<open>
  The state a method runs in: the client object, the requests handed to the transport so
  far, and the lines written with \<open>console.error\<close> (label and logged error).
\<close>

record state =
  this :: LunataskAPI
  sent :: "request list"
  console :: "(string \<times> error) list"

type_synonym 'a io = "state \<Rightarrow> 'a \<times> state"

definition constructor :: "string \<Rightarrow> LunataskAPI" where
  "constructor token = \<lparr>baseUrl = ''https://api.lunatask.app/v1'', accessToken = token\<rparr>"

definition axios_request :: "transport \<Rightarrow> request \<Rightarrow> (error + response) io" where
  "axios_request net req s = (net (sent s) req, s\<lparr>sent := sent s @ [req]\<rparr>)"

definition axios_get :: "transport \<Rightarrow> string \<Rightarrow> config \<Rightarrow> (error + response) io" where
  "axios_get net u c = axios_request net \<lparr>verb = GET, url = u, body = None, config = c\<rparr>"

definition axios_post :: "transport \<Rightarrow> string \<Rightarrow> jsval \<Rightarrow> config \<Rightarrow> (error + response) io" where
  "axios_post net u d c = axios_request net \<lparr>verb = POST, url = u, body = Some d, config = c\<rparr>"

definition axios_put :: "transport \<Rightarrow> string \<Rightarrow> jsval \<Rightarrow> config \<Rightarrow> (error + response) io" where
  "axios_put net u d c = axios_request net \<lparr>verb = PUT, url = u, body = Some d, config = c\<rparr>"

definition axios_delete :: "transport \<Rightarrow> string \<Rightarrow> config \<Rightarrow> (error + response) io" where
  "axios_delete net u c = axios_request net \<lparr>verb = DELETE, url = u, body = None, config = c\<rparr>"

definition console_error :: "string \<Rightarrow> error \<Rightarrow> state \<Rightarrow> state" where
  "console_error label e s = s\<lparr>console := console s @ [(label, e)]\<rparr>"

text \<open>The handler shared by five methods: \<open>catch (error) { console.error(label, error); throw error; }\<close>.\<close>

definition log_and_rethrow :: "string \<Rightarrow> (error + jsval) io \<Rightarrow> (error + jsval) io" where
  "log_and_rethrow label try_block s =
     (case try_block s of
        (Inl e, s') \<Rightarrow> (Inl e, console_error label e s')
      | (Inr v, s') \<Rightarrow> (Inr v, s'))"

text \<open>The statement \<open>return response.data.<field>\<close> after an awaited request.\<close>

definition return_field :: "string \<Rightarrow> (error + response) io \<Rightarrow> (error + jsval) io" where
  "return_field k call s =
     (case call s of
        (Inl e, s') \<Rightarrow> (Inl e, s')
      | (Inr resp, s') \<Rightarrow> (get_prop (data resp) k, s'))"

definition authorization :: "LunataskAPI \<Rightarrow> string \<times> string" where
  "authorization c = (''Authorization'', ''bearer '' @ accessToken c)"

definition content_type_json :: "string \<times> string" where
  "content_type_json = (''Content-Type'', ''application/json'')"

section \<open>The methods of the client\<close>

subsection \<open>ping\<close>

text \<open>
  The try block: \<open>return response.data && response.data.message === 'pong'\<close>.
  The operator \<open>&&\<close> yields its left operand when that is falsy, and the right one
  otherwise.
\<close>

definition ping_try :: "transport \<Rightarrow> (error + jsval) io" where
  "ping_try net s =
     (case axios_get net (baseUrl (this s) @ ''/ping'')
             \<lparr>headers = [authorization (this s)], params = None\<rparr> s of
        (Inl e, s') \<Rightarrow> (Inl e, s')
      | (Inr resp, s') \<Rightarrow>
          (if truthy (data resp)
           then (case get_prop (data resp) ''message'' of
                   Inl e \<Rightarrow> Inl e
                 | Inr m \<Rightarrow> Inr (JBool (strict_eq_str m ''pong'')))
           else Inr (data resp), s'))"

definition ping :: "transport \<Rightarrow> (error + jsval) io" where
  "ping net s =
     (case ping_try net s of
        (Inl e, s') \<Rightarrow> (Inr (JBool False), console_error ''Authentication failed:'' e s')
      | (Inr v, s') \<Rightarrow> (Inr v, s'))"

subsection \<open>retrieveAll\<close>

text \<open>\<open>if (x) params.k = x\<close> on the parameter object built so far.\<close>

definition set_if_truthy :: "string \<Rightarrow> string option \<Rightarrow> (string \<times> string) list \<Rightarrow> (string \<times> string) list" where
  "set_if_truthy k x ps =
     (case x of
        None \<Rightarrow> ps
      | Some v \<Rightarrow> if truthy (arg (Some v)) then AList.update k v ps else ps)"

definition retrieveAll_params :: "string option \<Rightarrow> string option \<Rightarrow> (string \<times> string) list" where
  "retrieveAll_params source source_id =
     set_if_truthy ''source_id'' source_id (set_if_truthy ''source'' source [])"

definition retrieveAll_try :: "transport \<Rightarrow> string option \<Rightarrow> string option \<Rightarrow> (error + jsval) io" where
  "retrieveAll_try net source source_id s =
     return_field ''tasks''
       (axios_get net (baseUrl (this s) @ ''/tasks'')
          \<lparr>headers = [authorization (this s)],
           params = Some (retrieveAll_params source source_id)\<rparr>) s"

definition retrieveAll :: "transport \<Rightarrow> string option \<Rightarrow> string option \<Rightarrow> (error + jsval) io" where
  "retrieveAll net source source_id =
     log_and_rethrow ''Error retrieving tasks:'' (retrieveAll_try net source source_id)"

subsection \<open>retrieveSingle, createTask, updateTask, deleteTask\<close>

definition retrieveSingle_try :: "transport \<Rightarrow> string \<Rightarrow> (error + jsval) io" where
  "retrieveSingle_try net taskId s =
     return_field ''task''
       (axios_get net (baseUrl (this s) @ ''/tasks/'' @ taskId)
          \<lparr>headers = [authorization (this s)], params = None\<rparr>) s"

definition retrieveSingle :: "transport \<Rightarrow> string \<Rightarrow> (error + jsval) io" where
  "retrieveSingle net taskId =
     log_and_rethrow (''Error retrieving task with ID '' @ taskId @ '':'')
       (retrieveSingle_try net taskId)"

definition createTask_try :: "transport \<Rightarrow> jsval \<Rightarrow> (error + jsval) io" where
  "createTask_try net taskParams s =
     return_field ''task''
       (axios_post net (baseUrl (this s) @ ''/tasks'') taskParams
          \<lparr>headers = [authorization (this s), content_type_json], params = None\<rparr>) s"

definition createTask :: "transport \<Rightarrow> jsval \<Rightarrow> (error + jsval) io" where
  "createTask net taskParams =
     log_and_rethrow ''Error creating task:'' (createTask_try net taskParams)"

definition updateTask_try :: "transport \<Rightarrow> string \<Rightarrow> jsval \<Rightarrow> (error + jsval) io" where
  "updateTask_try net taskId taskParams s =
     return_field ''task''
       (axios_put net (baseUrl (this s) @ ''/tasks/'' @ taskId) taskParams
          \<lparr>headers = [authorization (this s), content_type_json], params = None\<rparr>) s"

definition updateTask :: "transport \<Rightarrow> string \<Rightarrow> jsval \<Rightarrow> (error + jsval) io" where
  "updateTask net taskId taskParams =
     log_and_rethrow (''Error updating task with ID '' @ taskId @ '':'')
       (updateTask_try net taskId taskParams)"

definition deleteTask_try :: "transport \<Rightarrow> string \<Rightarrow> (error + jsval) io" where
  "deleteTask_try net taskId s =
     return_field ''task''
       (axios_delete net (baseUrl (this s) @ ''/tasks/'' @ taskId)
          \<lparr>headers = [authorization (this s)], params = None\<rparr>) s"

definition deleteTask :: "transport \<Rightarrow> string \<Rightarrow> (error + jsval) io" where
  "deleteTask net taskId =
     log_and_rethrow (''Error deleting task with ID '' @ taskId @ '':'')
       (deleteTask_try net taskId)"

section \<open>Vocabulary for statements about every method\<close>

text \<open>One call of a method with its arguments, and running it.\<close>

datatype call =
    Ping
  | RetrieveAll "string option" "string option"
  | RetrieveSingle string
  | CreateTask jsval
  | UpdateTask string jsval
  | DeleteTask string

fun invoke :: "transport \<Rightarrow> call \<Rightarrow> (error + jsval) io" where
  "invoke net Ping = ping net"
| "invoke net (RetrieveAll source source_id) = retrieveAll net source source_id"
| "invoke net (RetrieveSingle taskId) = retrieveSingle net taskId"
| "invoke net (CreateTask taskParams) = createTask net taskParams"
| "invoke net (UpdateTask taskId taskParams) = updateTask net taskId taskParams"
| "invoke net (DeleteTask taskId) = deleteTask net taskId"

text \<open>The try block of a call, before its \<open>catch\<close> clause.\<close>

fun invoke_try :: "transport \<Rightarrow> call \<Rightarrow> (error + jsval) io" where
  "invoke_try net Ping = ping_try net"
| "invoke_try net (RetrieveAll source source_id) = retrieveAll_try net source source_id"
| "invoke_try net (RetrieveSingle taskId) = retrieveSingle_try net taskId"
| "invoke_try net (CreateTask taskParams) = createTask_try net taskParams"
| "invoke_try net (UpdateTask taskId taskParams) = updateTask_try net taskId taskParams"
| "invoke_try net (DeleteTask taskId) = deleteTask_try net taskId"

text \<open>The calls that answer with one task, and those among them that send a body.\<close>

fun single_task_call :: "call \<Rightarrow> bool" where
  "single_task_call (RetrieveSingle taskId) = True"
| "single_task_call (CreateTask taskParams) = True"
| "single_task_call (UpdateTask taskId taskParams) = True"
| "single_task_call (DeleteTask taskId) = True"
| "single_task_call c = False"

fun sends_body :: "call \<Rightarrow> bool" where
  "sends_body (CreateTask taskParams) = True"
| "sends_body (UpdateTask taskId taskParams) = True"
| "sends_body c = False"

text \<open>The calls addressed to one task, with the identifier they are given.\<close>

fun addressed_task :: "call \<Rightarrow> string option" where
  "addressed_task (RetrieveSingle taskId) = Some taskId"
| "addressed_task (UpdateTask taskId taskParams) = Some taskId"
| "addressed_task (DeleteTask taskId) = Some taskId"
| "addressed_task c = None"

text \<open>The property of the response body that a method returns (\<open>ping\<close> tests it).\<close>

fun envelope_field :: "call \<Rightarrow> string" where
  "envelope_field Ping = ''message''"
| "envelope_field (RetrieveAll source source_id) = ''tasks''"
| "envelope_field c = ''task''"

text \<open>A response body without a field of the given name.\<close>

fun lacks_field :: "jsval \<Rightarrow> string \<Rightarrow> bool" where
  "lacks_field (JObj kvs) k = (map_of kvs k = None)"
| "lacks_field v k = True"

text \<open>The requests handed to the transport between an earlier state and a later one.\<close>

definition issued :: "state \<Rightarrow> state \<Rightarrow> request list" where
  "issued s s' = drop (length (sent s)) (sent s')"

text \<open>The lines written to the console between an earlier state and a later one.\<close>

definition logged :: "state \<Rightarrow> state \<Rightarrow> (string \<times> error) list" where
  "logged s s' = drop (length (console s)) (console s')"

text \<open>A state to run examples in, and transports that always give the same answer.\<close>

definition fresh :: "string \<Rightarrow> state" where
  "fresh token = \<lparr>this = constructor token, sent = [], console = []\<rparr>"

definition answering :: "nat \<Rightarrow> jsval \<Rightarrow> transport" where
  "answering st d = (\<lambda>history req. Inr \<lparr>status = st, data = d\<rparr>)"

definition rejecting :: "error \<Rightarrow> transport" where
  "rejecting e = (\<lambda>history req. Inl e)"

section \<open>What one call does to the state\<close>

lemmas io_defs = axios_request_def axios_get_def axios_post_def axios_put_def axios_delete_def
  console_error_def log_and_rethrow_def return_field_def

lemmas method_defs = ping_def ping_try_def retrieveAll_def retrieveAll_try_def
  retrieveSingle_def retrieveSingle_try_def createTask_def createTask_try_def
  updateTask_def updateTask_try_def deleteTask_def deleteTask_try_def

lemmas example_defs = fresh_def constructor_def answering_def rejecting_def
  authorization_def content_type_json_def retrieveAll_params_def set_if_truthy_def

lemma issued_after [simp]:
  "issued s (s\<lparr>sent := sent s @ rs\<rparr>) = rs"
  "issued s (s\<lparr>sent := sent s @ rs, console := cs\<rparr>) = rs"
  by (simp_all add: issued_def)

lemma logged_after [simp]:
  "logged s (s\<lparr>sent := rs\<rparr>) = []"
  "logged s (s\<lparr>sent := rs, console := console s @ ls\<rparr>) = ls"
  by (simp_all add: logged_def)

lemma get_prop_truthy: "truthy d \<Longrightarrow> \<exists>v. get_prop d k = Inr v"
  by (cases d) simp_all

lemma get_prop_lacking:
  "lacks_field d k \<Longrightarrow> d \<noteq> JNull \<Longrightarrow> d \<noteq> JUndefined \<Longrightarrow> get_prop d k = Inr JUndefined"
  by (cases d) simp_all

lemma get_prop_pong: "get_prop d k = Inr (JStr w) \<Longrightarrow> truthy d"
  by (cases d) simp_all

lemma strict_eq_str_iff: "strict_eq_str v t \<longleftrightarrow> v = JStr t"
  by (cases v) auto

text \<open>A rejection of the transport is what the try block raises.\<close>

lemma try_raises_transport_error:
  assumes "issued s (snd (invoke_try net c s)) = [r]" and "net (sent s) r = Inl e"
  shows "fst (invoke_try net c s) = Inl e"
  using assms by (cases c) (simp_all add: method_defs io_defs split: sum.splits prod.splits)

text \<open>A call that resolves writes nothing to the console.\<close>

lemma success_not_logged:
  "fst (invoke net c s) = Inr v \<Longrightarrow> c \<noteq> Ping \<Longrightarrow> logged s (snd (invoke net c s)) = []"
  by (cases c) (auto simp add: method_defs io_defs split: sum.splits prod.splits)

section \<open>ping\<close>

text \<open>The promise of \<open>ping\<close> never rejects.\<close>

lemma ping_never_raises: "\<exists>v. fst (ping net s) = Inr v"
proof -
  obtain r s' where run: "ping_try net s = (r, s')"
    by (cases "ping_try net s")
  show ?thesis
  proof (cases r)
    case (Inl e)
    with run show ?thesis by (simp add: ping_def)
  next
    case (Inr v)
    with run show ?thesis by (simp add: ping_def)
  qed
qed

text \<open>It resolves with \<open>true\<close> exactly for a response whose body has the message \<open>pong\<close>.\<close>

lemma ping_true_iff:
  "fst (ping net s) = Inr (JBool True) \<longleftrightarrow>
     (\<exists>resp. net (sent s) \<lparr>verb = GET, url = baseUrl (this s) @ ''/ping'', body = None,
                config = \<lparr>headers = [authorization (this s)], params = None\<rparr>\<rparr> = Inr resp
            \<and> get_prop (data resp) ''message'' = Inr (JStr ''pong''))"
  by (auto simp add: method_defs io_defs strict_eq_str_iff split: sum.splits prod.splits
           dest: get_prop_pong get_prop_truthy)

text \<open>Whatever else it resolves with is falsy.\<close>

lemma ping_otherwise_falsy:
  "fst (ping net s) = Inr v \<Longrightarrow> v \<noteq> JBool True \<Longrightarrow> \<not> truthy v"
  by (auto simp add: method_defs io_defs split: sum.splits prod.splits if_splits)

text \<open>A rejection of the transport is logged and answered with the boolean \<open>false\<close>.\<close>

lemma ping_rejected:
  assumes "net (sent s) \<lparr>verb = GET, url = baseUrl (this s) @ ''/ping'', body = None,
             config = \<lparr>headers = [authorization (this s)], params = None\<rparr>\<rparr> = Inl e"
  shows "fst (ping net s) = Inr (JBool False)
       \<and> logged s (snd (ping net s)) = [(''Authentication failed:'', e)]"
  using assms by (simp add: method_defs io_defs)

text \<open>
  Claim C1. \<open>ping\<close> is declared to return a boolean, and the claim has it return the
  boolean \<open>false\<close> for every response whose body is not one with the message
  \<open>pong\<close>. For a response with a falsy body the code returns that body instead: the
  empty string for an empty body (status 204), \<open>null\<close> for the JSON body \<open>null\<close>.
\<close>

theorem ping_falsy_body_returned:
  "fst (ping (answering 204 (JStr [])) (fresh ''tok'')) = Inr (JStr [])
 \<and> fst (ping (answering 200 JNull) (fresh ''tok'')) = Inr JNull
 \<and> fst (ping (answering 200 (JNum 0)) (fresh ''tok'')) = Inr (JNum 0)"
  by (simp add: method_defs io_defs example_defs)

section \<open>retrieveAll\<close>

lemma retrieveAll_issued:
  "issued s (snd (retrieveAll net source source_id s)) =
     [\<lparr>verb = GET, url = baseUrl (this s) @ ''/tasks'', body = None,
       config = \<lparr>headers = [authorization (this s)],
                 params = Some (retrieveAll_params source source_id)\<rparr>\<rparr>]"
  by (simp add: method_defs io_defs split: sum.splits prod.splits)

lemma retrieveAll_params_source:
  "map_of (retrieveAll_params source source_id) ''source'' =
     (if source = Some [] then None else source)"
  by (cases source; cases source_id) (simp_all add: retrieveAll_params_def set_if_truthy_def)

lemma retrieveAll_params_source_id:
  "map_of (retrieveAll_params source source_id) ''source_id'' =
     (if source_id = Some [] then None else source_id)"
  by (cases source; cases source_id) (simp_all add: retrieveAll_params_def set_if_truthy_def)

lemma retrieveAll_params_keys:
  "dom (map_of (retrieveAll_params source source_id)) \<subseteq> {''source'', ''source_id''}"
  by (cases source; cases source_id)
     (auto simp add: retrieveAll_params_def set_if_truthy_def split: if_splits)

text \<open>
  Claim C2, as stated, fails for an argument that is provided but empty: the guard
  \<open>if (source)\<close> tests truthiness, so \<open>retrieveAll("")\<close> sends no \<open>source\<close>
  parameter.
\<close>

theorem retrieveAll_empty_source_not_sent:
  "map config (issued (fresh ''tok'')
     (snd (retrieveAll (answering 200 (JObj [(''tasks'', JArr [])])) (Some []) None (fresh ''tok''))))
   = [\<lparr>headers = [(''Authorization'', ''bearer tok'')], params = Some []\<rparr>]"
  by (simp add: retrieveAll_issued example_defs)

text \<open>
  Claim C2, amended: the one request of \<open>retrieveAll\<close> carries a parameter object in
  which \<open>source\<close> is the \<open>source\<close> argument when that is provided and not the empty
  string, and is absent otherwise; likewise \<open>source_id\<close> for the \<open>source_id\<close>
  argument, each whatever the other argument is; and there is no other parameter.
\<close>

theorem retrieveAll_query_params:
  "\<exists>r ps. issued s (snd (retrieveAll net source source_id s)) = [r]
      \<and> params (config r) = Some ps
      \<and> map_of ps ''source'' = (if source = Some [] then None else source)
      \<and> map_of ps ''source_id'' = (if source_id = Some [] then None else source_id)
      \<and> dom (map_of ps) \<subseteq> {''source'', ''source_id''}"
  by (simp add: retrieveAll_issued retrieveAll_params_source retrieveAll_params_source_id
        retrieveAll_params_keys)

theorem retrieveAll_query_params_witness:
  "\<exists>r ps. issued (fresh ''tok'')
       (snd (retrieveAll (rejecting (AxiosError None ''ECONNREFUSED''))
              (Some ''todoist'') (Some ''123'') (fresh ''tok''))) = [r]
      \<and> params (config r) = Some ps
      \<and> map_of ps ''source'' = Some ''todoist''
      \<and> map_of ps ''source_id'' = Some ''123''"
  using retrieveAll_query_params [of "fresh ''tok''" "rejecting (AxiosError None ''ECONNREFUSED'')"
      "Some ''todoist''" "Some ''123''"]
  by auto

text \<open>
  Claim C5. \<open>retrieveAll\<close> resolves with a value exactly when the transport resolved
  with a response whose body has that value as its \<open>tasks\<close> property: what arrives is
  what is returned, in the order it arrived.
\<close>

theorem retrieveAll_returns_tasks:
  assumes "issued s (snd (retrieveAll net source source_id s)) = [r]"
  shows "fst (retrieveAll net source source_id s) = Inr v \<longleftrightarrow>
           (\<exists>resp. net (sent s) r = Inr resp \<and> get_prop (data resp) ''tasks'' = Inr v)"
proof -
  from assms have r: "r = \<lparr>verb = GET, url = baseUrl (this s) @ ''/tasks'', body = None,
       config = \<lparr>headers = [authorization (this s)],
                 params = Some (retrieveAll_params source source_id)\<rparr>\<rparr>"
    by (simp add: retrieveAll_issued)
  show ?thesis
    unfolding r by (auto simp add: method_defs io_defs split: sum.splits prod.splits)
qed

theorem retrieveAll_returns_tasks_witness:
  "fst (retrieveAll (answering 200 (JObj [(''tasks'', JArr [JStr ''c'', JStr ''a'', JStr ''b''])]))
         None None (fresh ''tok''))
   = Inr (JArr [JStr ''c'', JStr ''a'', JStr ''b''])"
proof -
  let ?net = "answering 200 (JObj [(''tasks'', JArr [JStr ''c'', JStr ''a'', JStr ''b''])])"
  let ?r = "\<lparr>verb = GET, url = ''https://api.lunatask.app/v1/tasks'', body = None,
             config = \<lparr>headers = [(''Authorization'', ''bearer tok'')], params = Some []\<rparr>\<rparr>"
  have sent: "issued (fresh ''tok'') (snd (retrieveAll ?net None None (fresh ''tok''))) = [?r]"
    by (simp add: retrieveAll_issued example_defs)
  show ?thesis
    using retrieveAll_returns_tasks [OF sent] by (simp add: answering_def)
qed

text \<open>
  Claim C9, as stated, fails for the body \<open>null\<close>, which has no \<open>tasks\<close> field:
  reading \<open>response.data.tasks\<close> throws, and the call rejects with that
  \<open>TypeError\<close>.
\<close>

theorem retrieveAll_null_body_raises:
  "lacks_field JNull ''tasks''
 \<and> fst (retrieveAll (answering 200 JNull) None None (fresh ''tok''))
     = Inl (TypeError JNull ''tasks'')"
  by (simp add: method_defs io_defs example_defs)

text \<open>
  Claim C9, amended: when the transport resolves with a response whose body is neither
  \<open>null\<close> nor \<open>undefined\<close> and has no \<open>tasks\<close> field, \<open>retrieveAll\<close>
  resolves with \<open>undefined\<close>; it neither raises nor logs nor returns an empty
  sequence.
\<close>

theorem retrieveAll_missing_tasks_undefined:
  assumes "issued s (snd (retrieveAll net source source_id s)) = [r]"
    and "net (sent s) r = Inr resp"
    and "lacks_field (data resp) ''tasks''"
    and "data resp \<noteq> JNull" and "data resp \<noteq> JUndefined"
  shows "fst (retrieveAll net source source_id s) = Inr JUndefined
       \<and> logged s (snd (retrieveAll net source source_id s)) = []"
proof -
  from assms(1) have r: "r = \<lparr>verb = GET, url = baseUrl (this s) @ ''/tasks'', body = None,
       config = \<lparr>headers = [authorization (this s)],
                 params = Some (retrieveAll_params source source_id)\<rparr>\<rparr>"
    by (simp add: retrieveAll_issued)
  have "get_prop (data resp) ''tasks'' = Inr JUndefined"
    using assms(3-5) by (rule get_prop_lacking)
  with assms(2) show ?thesis
    unfolding r by (simp add: method_defs io_defs)
qed

theorem retrieveAll_missing_tasks_undefined_witness:
  "lacks_field (JObj [(''error'', JStr ''x'')]) ''tasks''
 \<and> fst (retrieveAll (answering 200 (JObj [(''error'', JStr ''x'')])) None None (fresh ''tok''))
     = Inr JUndefined"
proof -
  let ?d = "JObj [(''error'', JStr ''x'')]"
  let ?r = "\<lparr>verb = GET, url = ''https://api.lunatask.app/v1/tasks'', body = None,
             config = \<lparr>headers = [(''Authorization'', ''bearer tok'')], params = Some []\<rparr>\<rparr>"
  have h1: "issued (fresh ''tok'') (snd (retrieveAll (answering 200 ?d) None None (fresh ''tok''))) = [?r]"
    by (simp add: retrieveAll_issued example_defs)
  have h2: "answering 200 ?d (sent (fresh ''tok'')) ?r = Inr \<lparr>status = 200, data = ?d\<rparr>"
    by (simp add: answering_def)
  have h3: "lacks_field (data \<lparr>status = 200, data = ?d\<rparr>) ''tasks''" by simp
  have h4: "data \<lparr>status = 200, data = ?d\<rparr> \<noteq> JNull" by simp
  have h5: "data \<lparr>status = 200, data = ?d\<rparr> \<noteq> JUndefined" by simp
  from retrieveAll_missing_tasks_undefined [OF h1 h2 h3 h4 h5] h3 show ?thesis by simp
qed

section \<open>The single-task methods\<close>

lemma retrieveSingle_issued:
  "issued s (snd (retrieveSingle net taskId s)) =
     [\<lparr>verb = GET, url = baseUrl (this s) @ ''/tasks/'' @ taskId, body = None,
       config = \<lparr>headers = [authorization (this s)], params = None\<rparr>\<rparr>]"
  by (simp add: method_defs io_defs split: sum.splits prod.splits)

lemma createTask_issued:
  "issued s (snd (createTask net taskParams s)) =
     [\<lparr>verb = POST, url = baseUrl (this s) @ ''/tasks'', body = Some taskParams,
       config = \<lparr>headers = [authorization (this s), content_type_json], params = None\<rparr>\<rparr>]"
  by (simp add: method_defs io_defs split: sum.splits prod.splits)

lemma updateTask_issued:
  "issued s (snd (updateTask net taskId taskParams s)) =
     [\<lparr>verb = PUT, url = baseUrl (this s) @ ''/tasks/'' @ taskId, body = Some taskParams,
       config = \<lparr>headers = [authorization (this s), content_type_json], params = None\<rparr>\<rparr>]"
  by (simp add: method_defs io_defs split: sum.splits prod.splits)

lemma deleteTask_issued:
  "issued s (snd (deleteTask net taskId s)) =
     [\<lparr>verb = DELETE, url = baseUrl (this s) @ ''/tasks/'' @ taskId, body = None,
       config = \<lparr>headers = [authorization (this s)], params = None\<rparr>\<rparr>]"
  by (simp add: method_defs io_defs split: sum.splits prod.splits)

lemma ping_issued:
  "issued s (snd (ping net s)) =
     [\<lparr>verb = GET, url = baseUrl (this s) @ ''/ping'', body = None,
       config = \<lparr>headers = [authorization (this s)], params = None\<rparr>\<rparr>]"
  by (simp add: method_defs io_defs split: sum.splits prod.splits)

lemmas issued_simps = ping_issued retrieveAll_issued retrieveSingle_issued createTask_issued
  updateTask_issued deleteTask_issued

text \<open>
  Claim C4. A call of \<open>retrieveSingle\<close>, \<open>createTask\<close>, \<open>updateTask\<close> or
  \<open>deleteTask\<close> resolves with a value exactly when the transport resolved its request
  with a response whose body has that value as its \<open>task\<close> property: the client
  returns the field as it arrived.
\<close>

theorem single_task_returned:
  assumes "single_task_call c" and "issued s (snd (invoke net c s)) = [r]"
  shows "fst (invoke net c s) = Inr v \<longleftrightarrow>
           (\<exists>resp. net (sent s) r = Inr resp \<and> get_prop (data resp) ''task'' = Inr v)"
proof (cases c)
  case Ping
  with assms(1) show ?thesis by simp
next
  case (RetrieveAll source source_id)
  with assms(1) show ?thesis by simp
next
  case (RetrieveSingle taskId)
  with assms(2) have "r = \<lparr>verb = GET, url = baseUrl (this s) @ ''/tasks/'' @ taskId, body = None,
       config = \<lparr>headers = [authorization (this s)], params = None\<rparr>\<rparr>"
    by (simp add: retrieveSingle_issued)
  with RetrieveSingle show ?thesis
    by (auto simp add: method_defs io_defs split: sum.splits prod.splits)
next
  case (CreateTask taskParams)
  with assms(2) have "r = \<lparr>verb = POST, url = baseUrl (this s) @ ''/tasks'', body = Some taskParams,
       config = \<lparr>headers = [authorization (this s), content_type_json], params = None\<rparr>\<rparr>"
    by (simp add: createTask_issued)
  with CreateTask show ?thesis
    by (auto simp add: method_defs io_defs split: sum.splits prod.splits)
next
  case (UpdateTask taskId taskParams)
  with assms(2) have "r = \<lparr>verb = PUT, url = baseUrl (this s) @ ''/tasks/'' @ taskId,
       body = Some taskParams,
       config = \<lparr>headers = [authorization (this s), content_type_json], params = None\<rparr>\<rparr>"
    by (simp add: updateTask_issued)
  with UpdateTask show ?thesis
    by (auto simp add: method_defs io_defs split: sum.splits prod.splits)
next
  case (DeleteTask taskId)
  with assms(2) have "r = \<lparr>verb = DELETE, url = baseUrl (this s) @ ''/tasks/'' @ taskId, body = None,
       config = \<lparr>headers = [authorization (this s)], params = None\<rparr>\<rparr>"
    by (simp add: deleteTask_issued)
  with DeleteTask show ?thesis
    by (auto simp add: method_defs io_defs split: sum.splits prod.splits)
qed

theorem single_task_returned_witness:
  "single_task_call (CreateTask (JObj [(''area_id'', JStr ''A1'')]))
 \<and> fst (invoke
       (answering 201 (JObj [(''task'', JObj [(''id'', JStr ''T1''), (''area_id'', JStr ''A1''),
          (''created_at'', JStr ''2024-01-01T00:00:00Z''),
          (''updated_at'', JStr ''2024-01-01T00:00:00Z'')])]))
       (CreateTask (JObj [(''area_id'', JStr ''A1'')])) (fresh ''tok''))
   = Inr (JObj [(''id'', JStr ''T1''), (''area_id'', JStr ''A1''),
          (''created_at'', JStr ''2024-01-01T00:00:00Z''),
          (''updated_at'', JStr ''2024-01-01T00:00:00Z'')])"
proof -
  let ?task = "JObj [(''id'', JStr ''T1''), (''area_id'', JStr ''A1''),
          (''created_at'', JStr ''2024-01-01T00:00:00Z''),
          (''updated_at'', JStr ''2024-01-01T00:00:00Z'')]"
  let ?net = "answering 201 (JObj [(''task'', ?task)])"
  let ?c = "CreateTask (JObj [(''area_id'', JStr ''A1'')])"
  let ?r = "\<lparr>verb = POST, url = ''https://api.lunatask.app/v1/tasks'',
             body = Some (JObj [(''area_id'', JStr ''A1'')]),
             config = \<lparr>headers = [(''Authorization'', ''bearer tok''),
                                  (''Content-Type'', ''application/json'')], params = None\<rparr>\<rparr>"
  have h1: "single_task_call ?c" by simp
  have h2: "issued (fresh ''tok'') (snd (invoke ?net ?c (fresh ''tok''))) = [?r]"
    by (simp add: createTask_issued example_defs)
  from single_task_returned [OF h1 h2, of ?task] h1 show ?thesis
    by (simp add: answering_def)
qed

text \<open>
  Claim C10. \<open>retrieveSingle\<close>, \<open>updateTask\<close> and \<open>deleteTask\<close> send their request
  to the base URL followed by \<open>/tasks/\<close> and the identifier as given: no character of
  it is encoded or escaped, so an identifier with \<open>/\<close>, \<open>?\<close> or \<open>#\<close> in it
  changes the path or the query of the URL.
\<close>

theorem task_url_verbatim:
  assumes "addressed_task c = Some taskId"
  shows "map url (issued s (snd (invoke net c s))) = [baseUrl (this s) @ ''/tasks/'' @ taskId]"
  using assms by (cases c) (simp_all add: issued_simps)

theorem task_url_verbatim_witness:
  "addressed_task (DeleteTask ''a/b?c#d'') = Some ''a/b?c#d''
 \<and> map url (issued (fresh ''tok'')
       (snd (invoke (rejecting (AxiosError (Some 404) ''Not Found'')) (DeleteTask ''a/b?c#d'')
          (fresh ''tok''))))
   = [''https://api.lunatask.app/v1/tasks/a/b?c#d'']"
proof -
  have h: "addressed_task (DeleteTask ''a/b?c#d'') = Some ''a/b?c#d''" by simp
  from task_url_verbatim [OF h, of "fresh ''tok''" "rejecting (AxiosError (Some 404) ''Not Found'')"] h
  show ?thesis by (simp add: example_defs)
qed

section \<open>Every method\<close>

lemma invoke_this: "this (snd (invoke net c s)) = this s"
  by (cases c) (simp_all add: method_defs io_defs split: sum.splits prod.splits)

lemma invoke_sent: "sent (snd (invoke net c s)) = sent s @ issued s (snd (invoke net c s))"
  by (cases c) (simp_all add: method_defs io_defs split: sum.splits prod.splits)

text \<open>Each method but \<open>ping\<close> is its try block under the shared handler.\<close>

lemma invoke_catches:
  "c \<noteq> Ping \<Longrightarrow> \<exists>label. invoke net c = log_and_rethrow label (invoke_try net c)"
  by (cases c)
     (auto simp add: retrieveAll_def retrieveSingle_def createTask_def updateTask_def deleteTask_def)

lemma invoke_try_console: "console (snd (invoke_try net c s)) = console s"
  by (cases c)
     (simp_all add: ping_try_def retrieveAll_try_def retrieveSingle_try_def createTask_try_def
        updateTask_try_def deleteTask_try_def io_defs split: sum.splits prod.splits)

text \<open>What a method but \<open>ping\<close> answers, read off the transport's answer to its request.\<close>

lemma get_prop_raises:
  "get_prop d k = Inl e \<longleftrightarrow> (d = JNull \<or> d = JUndefined) \<and> e = TypeError d k"
  by (cases d) auto

lemma invoke_result:
  assumes "c \<noteq> Ping" and "issued s (snd (invoke net c s)) = [r]"
  shows "fst (invoke net c s) =
           (case net (sent s) r of
              Inl e \<Rightarrow> Inl e
            | Inr resp \<Rightarrow> get_prop (data resp) (envelope_field c))"
proof -
  from assms(1) obtain label where "invoke net c = log_and_rethrow label (invoke_try net c)"
    using invoke_catches by blast
  then have same: "fst (invoke net c s) = fst (invoke_try net c s)"
    and "issued s (snd (invoke net c s)) = issued s (snd (invoke_try net c s))"
    by (cases "invoke_try net c s"; cases "fst (invoke_try net c s)";
        simp add: log_and_rethrow_def console_error_def issued_def)+
  with assms(2) have r: "issued s (snd (invoke_try net c s)) = [r]"
    by simp
  have "fst (invoke_try net c s) =
           (case net (sent s) r of
              Inl e \<Rightarrow> Inl e
            | Inr resp \<Rightarrow> get_prop (data resp) (envelope_field c))"
    using assms(1) r
    by (cases c)
       (auto simp add: retrieveAll_try_def retrieveSingle_try_def createTask_try_def
          updateTask_try_def deleteTask_try_def io_defs split: sum.splits prod.splits)
  with same show ?thesis by simp
qed

lemma invoke_logged:
  assumes "c \<noteq> Ping"
  shows "map snd (logged s (snd (invoke net c s))) =
           (case fst (invoke net c s) of Inl e \<Rightarrow> [e] | Inr v \<Rightarrow> [])"
proof -
  from assms obtain label where "invoke net c = log_and_rethrow label (invoke_try net c)"
    using invoke_catches by blast
  then show ?thesis
    using invoke_try_console [of net c s]
    by (cases "invoke_try net c s"; cases "fst (invoke_try net c s)")
       (simp_all add: log_and_rethrow_def console_error_def logged_def)
qed

text \<open>
  Claim C3. For \<open>retrieveAll\<close>, \<open>retrieveSingle\<close>, \<open>createTask\<close>,
  \<open>updateTask\<close> and \<open>deleteTask\<close>, with \<open>r\<close> the request the call hands to the
  transport: when the transport rejects \<open>r\<close> with an error (a network failure, a
  status outside 2xx), the call writes one line carrying that error to the console and
  rejects with the same error; when the transport resolves with the body \<open>null\<close> or
  \<open>undefined\<close>, the \<open>TypeError\<close> of reading its field is logged and raised in the
  same way; and whenever the call rejects, its error is the one logged, and is one of
  these two, unchanged.
\<close>

theorem failure_logged_and_rethrown:
  assumes "c \<noteq> Ping" and "issued s (snd (invoke net c s)) = [r]"
  shows "(net (sent s) r = Inl e \<longrightarrow>
            fst (invoke net c s) = Inl e
          \<and> map snd (logged s (snd (invoke net c s))) = [e])
       \<and> (\<forall>resp. net (sent s) r = Inr resp \<longrightarrow> (data resp = JNull \<or> data resp = JUndefined) \<longrightarrow>
            fst (invoke net c s) = Inl (TypeError (data resp) (envelope_field c))
          \<and> map snd (logged s (snd (invoke net c s))) = [TypeError (data resp) (envelope_field c)])
       \<and> (fst (invoke net c s) = Inl e \<longrightarrow>
            map snd (logged s (snd (invoke net c s))) = [e]
          \<and> (net (sent s) r = Inl e
             \<or> (\<exists>resp. net (sent s) r = Inr resp
                  \<and> (data resp = JNull \<or> data resp = JUndefined)
                  \<and> e = TypeError (data resp) (envelope_field c))))"
proof (intro conjI impI allI)
  assume "net (sent s) r = Inl e"
  then have raised: "fst (invoke net c s) = Inl e"
    using invoke_result [OF assms] by simp
  then show "fst (invoke net c s) = Inl e" .
  from raised show "map snd (logged s (snd (invoke net c s))) = [e]"
    using invoke_logged [OF assms(1), of s net] by simp
next
  fix resp
  assume "net (sent s) r = Inr resp" and "data resp = JNull \<or> data resp = JUndefined"
  then have raised: "fst (invoke net c s) = Inl (TypeError (data resp) (envelope_field c))"
    using invoke_result [OF assms] by auto
  then show "fst (invoke net c s) = Inl (TypeError (data resp) (envelope_field c))" .
  from raised
  show "map snd (logged s (snd (invoke net c s))) = [TypeError (data resp) (envelope_field c)]"
    using invoke_logged [OF assms(1), of s net] by simp
next
  assume raised: "fst (invoke net c s) = Inl e"
  then show "map snd (logged s (snd (invoke net c s))) = [e]"
    using invoke_logged [OF assms(1), of s net] by simp
  from raised invoke_result [OF assms]
  show "net (sent s) r = Inl e
      \<or> (\<exists>resp. net (sent s) r = Inr resp
           \<and> (data resp = JNull \<or> data resp = JUndefined)
           \<and> e = TypeError (data resp) (envelope_field c))"
    by (cases "net (sent s) r") (simp_all add: get_prop_raises)
qed

theorem failure_logged_and_rethrown_witness:
  "UpdateTask ''abc'' (JObj [(''name'', JStr ''n'')]) \<noteq> Ping
 \<and> rejecting (AxiosError (Some 500) ''Internal Server Error'') (sent (fresh ''tok''))
      \<lparr>verb = PUT, url = ''https://api.lunatask.app/v1/tasks/abc'',
        body = Some (JObj [(''name'', JStr ''n'')]),
        config = \<lparr>headers = [(''Authorization'', ''bearer tok''),
                            (''Content-Type'', ''application/json'')], params = None\<rparr>\<rparr>
   = Inl (AxiosError (Some 500) ''Internal Server Error'')
 \<and> fst (invoke (rejecting (AxiosError (Some 500) ''Internal Server Error''))
        (UpdateTask ''abc'' (JObj [(''name'', JStr ''n'')])) (fresh ''tok''))
   = Inl (AxiosError (Some 500) ''Internal Server Error'')
 \<and> map snd (logged (fresh ''tok'')
       (snd (invoke (rejecting (AxiosError (Some 500) ''Internal Server Error''))
          (UpdateTask ''abc'' (JObj [(''name'', JStr ''n'')])) (fresh ''tok''))))
   = [AxiosError (Some 500) ''Internal Server Error'']
 \<and> fst (invoke (answering 200 JNull)
        (UpdateTask ''abc'' (JObj [(''name'', JStr ''n'')])) (fresh ''tok''))
   = Inl (TypeError JNull ''task'')
 \<and> map snd (logged (fresh ''tok'')
       (snd (invoke (answering 200 JNull)
          (UpdateTask ''abc'' (JObj [(''name'', JStr ''n'')])) (fresh ''tok''))))
   = [TypeError JNull ''task'']"
proof -
  let ?c = "UpdateTask ''abc'' (JObj [(''name'', JStr ''n'')])"
  let ?e = "AxiosError (Some 500) ''Internal Server Error''"
  let ?r = "\<lparr>verb = PUT, url = ''https://api.lunatask.app/v1/tasks/abc'',
        body = Some (JObj [(''name'', JStr ''n'')]),
        config = \<lparr>headers = [(''Authorization'', ''bearer tok''),
                            (''Content-Type'', ''application/json'')], params = None\<rparr>\<rparr>"
  have h1: "?c \<noteq> Ping" by simp
  have h2: "issued (fresh ''tok'') (snd (invoke (rejecting ?e) ?c (fresh ''tok''))) = [?r]"
    by (simp add: updateTask_issued example_defs)
  have h3: "rejecting ?e (sent (fresh ''tok'')) ?r = Inl ?e"
    by (simp add: rejecting_def)
  have h4: "issued (fresh ''tok'') (snd (invoke (answering 200 JNull) ?c (fresh ''tok''))) = [?r]"
    by (simp add: updateTask_issued example_defs)
  have h5: "answering 200 JNull (sent (fresh ''tok'')) ?r = Inr \<lparr>status = 200, data = JNull\<rparr>"
    by (simp add: answering_def)
  from failure_logged_and_rethrown [OF h1 h2, of ?e] h3
  have rejected: "fst (invoke (rejecting ?e) ?c (fresh ''tok'')) = Inl ?e
      \<and> map snd (logged (fresh ''tok'') (snd (invoke (rejecting ?e) ?c (fresh ''tok'')))) = [?e]"
    by blast
  from failure_logged_and_rethrown [OF h1 h4, of ?e] h5
  have null_body: "fst (invoke (answering 200 JNull) ?c (fresh ''tok'')) = Inl (TypeError JNull ''task'')
      \<and> map snd (logged (fresh ''tok'') (snd (invoke (answering 200 JNull) ?c (fresh ''tok''))))
          = [TypeError JNull ''task'']"
    by fastforce
  from h1 h3 rejected null_body show ?thesis by blast
qed

text \<open>The header object of each request, in full.\<close>

lemma request_headers_exact:
  "\<exists>r. issued s (snd (invoke net c s)) = [r]
      \<and> headers (config r) =
          (if sends_body c
           then [(''Authorization'', ''bearer '' @ accessToken (this s)),
                 (''Content-Type'', ''application/json'')]
           else [(''Authorization'', ''bearer '' @ accessToken (this s))])"
  by (cases c) (simp_all add: issued_simps authorization_def content_type_json_def)

text \<open>
  Claim C6, as stated, fails for \<open>deleteTask\<close>: its DELETE request carries the
  \<open>Authorization\<close> header and no \<open>Content-Type\<close> header.
\<close>

theorem deleteTask_without_content_type:
  "map config (issued (fresh ''tok'')
     (snd (deleteTask (answering 200 (JObj [(''task'', JObj [(''id'', JStr ''abc'')])])) ''abc''
        (fresh ''tok''))))
   = [\<lparr>headers = [(''Authorization'', ''bearer tok'')], params = None\<rparr>]"
  by (simp add: deleteTask_issued example_defs)

text \<open>
  Claim C6, amended: the request of each of the six methods carries the header
  \<open>Authorization: bearer <token>\<close> built from the token given to the constructor;
  the two requests with a body (the POST of \<open>createTask\<close>, the PUT of
  \<open>updateTask\<close>) carry \<open>Content-Type: application/json\<close> as well, and the others,
  the DELETE of \<open>deleteTask\<close> among them, carry no \<open>Content-Type\<close> header.
\<close>

theorem request_headers:
  assumes "this s = constructor token"
  shows "\<exists>r. issued s (snd (invoke net c s)) = [r]
      \<and> map_of (headers (config r)) ''Authorization'' = Some (''bearer '' @ token)
      \<and> map_of (headers (config r)) ''Content-Type''
          = (if sends_body c then Some ''application/json'' else None)"
  using assms
  by (cases c) (simp_all add: issued_simps authorization_def content_type_json_def constructor_def)

theorem request_headers_witness:
  "this (fresh ''tok'') = constructor ''tok''
 \<and> (\<exists>r. issued (fresh ''tok'')
           (snd (invoke (answering 200 (JObj [])) (UpdateTask ''abc'' (JObj [])) (fresh ''tok''))) = [r]
      \<and> map_of (headers (config r)) ''Authorization'' = Some ''bearer tok''
      \<and> map_of (headers (config r)) ''Content-Type'' = Some ''application/json'')"
proof -
  have h: "this (fresh ''tok'') = constructor ''tok''" by (simp add: fresh_def)
  from request_headers [OF h, of "answering 200 (JObj [])" "UpdateTask ''abc'' (JObj [])"] h
  show ?thesis by simp
qed

text \<open>
  Claim C7. A client made by the constructor has the fixed base URL and the given token,
  and is the same after any call, resolved or rejected; and the request a call produces
  is the same for the same arguments and token, whatever the transport answers and
  whatever was sent or logged before.
\<close>

theorem client_never_mutated:
  assumes "this s = constructor token" and "this s' = constructor token"
  shows "this (snd (invoke net c s)) = constructor token
       \<and> baseUrl (this (snd (invoke net c s))) = ''https://api.lunatask.app/v1''
       \<and> accessToken (this (snd (invoke net c s))) = token
       \<and> issued s (snd (invoke net c s)) = issued s' (snd (invoke net' c s'))"
proof -
  have "this (snd (invoke net c s)) = constructor token"
    using assms(1) by (simp add: invoke_this)
  moreover have "issued s (snd (invoke net c s)) = issued s' (snd (invoke net' c s'))"
    using assms by (cases c) (simp_all add: issued_simps)
  ultimately show ?thesis
    by (simp add: constructor_def)
qed

theorem client_never_mutated_witness:
  "this (fresh ''tok'') = constructor ''tok''
 \<and> this (snd (ping (answering 200 JNull) (fresh ''tok''))) = constructor ''tok''
 \<and> this (snd (invoke (rejecting (AxiosError None ''timeout'')) (RetrieveSingle ''abc'')
            (snd (ping (answering 200 JNull) (fresh ''tok''))))) = constructor ''tok''
 \<and> issued (fresh ''tok'')
      (snd (invoke (answering 200 JNull) (RetrieveSingle ''abc'') (fresh ''tok'')))
   = issued (snd (ping (answering 200 JNull) (fresh ''tok'')))
      (snd (invoke (rejecting (AxiosError None ''timeout'')) (RetrieveSingle ''abc'')
            (snd (ping (answering 200 JNull) (fresh ''tok'')))))"
proof -
  let ?s = "fresh ''tok''"
  let ?s' = "snd (ping (answering 200 JNull) ?s)"
  have h1: "this ?s = constructor ''tok''" by (simp add: fresh_def)
  have h2: "this ?s' = constructor ''tok''"
    using client_never_mutated [OF h1 h1, of "answering 200 JNull" Ping] by simp
  from client_never_mutated [OF h2 h1, of "rejecting (AxiosError None ''timeout'')"
      "RetrieveSingle ''abc''" "answering 200 JNull"]
    client_never_mutated [OF h1 h2, of "answering 200 JNull"
      "RetrieveSingle ''abc''" "rejecting (AxiosError None ''timeout'')"] h1 h2
  show ?thesis by simp
qed

text \<open>
  Claim C8. Every call hands exactly one request to the transport, whether the transport
  resolves or rejects it: the requests sent so far grow by one.
\<close>

theorem one_request_per_call:
  "length (issued s (snd (invoke net c s))) = 1
 \<and> sent (snd (invoke net c s)) = sent s @ issued s (snd (invoke net c s))"
proof
  show "length (issued s (snd (invoke net c s))) = 1"
    by (cases c) (simp_all add: issued_simps)
  show "sent (snd (invoke net c s)) = sent s @ issued s (snd (invoke net c s))"
    by (rule invoke_sent)
qed

theorem one_request_per_call_witness:
  "length (sent (snd (invoke (rejecting (AxiosError (Some 503) ''Service Unavailable''))
      (CreateTask (JObj [(''area_id'', JStr ''A1'')])) (fresh ''tok'')))) = 1"
  using one_request_per_call [of "fresh ''tok''"
      "rejecting (AxiosError (Some 503) ''Service Unavailable'')"
      "CreateTask (JObj [(''area_id'', JStr ''A1'')])"]
  by (simp add: fresh_def)

end
